theory Spec2Isabelle
  imports Main
begin

section \<open>The Sendly Go client: data model\<close>

text \<open>
  A shallow embedding of package \<open>sendly\<close>: the error taxonomy (\<open>errors.go\<close>), the
  request executor (\<open>Client.request\<close>, \<open>doRequest\<close>, \<open>handleErrorResponse\<close>), the client
  options (\<open>NewClient\<close>), the resource services (\<open>MessagesService\<close>, \<open>AccountService\<close>)
  and the webhook signature helpers.

  Go strings are byte strings and are modelled as \<open>string\<close>. Go's \<open>int\<close> is taken to be 64
  bits wide; a \<open>time.Duration\<close> is an \<open>int64\<close> count of nanoseconds. Both are modelled as
  \<open>int\<close>, with the two's-complement wrap-around written out (\<open>wrap64\<close>) where the code
  multiplies, shifts or increments.
\<close>

subsection \<open>Errors\<close>

text \<open>
  An error value produced outside this package (by \<open>encoding/json\<close>, \<open>net/http\<close>,
  \<open>context\<close>, the rate limiter), identified by its text.
\<close>

type_synonym stdlib_error = string

text \<open>A decoded JSON value of the open \<open>details\<close> map; its structure is never inspected.\<close>

typedecl json_value

text \<open>\<open>type APIError struct { Code, Message string; Details map[string]interface{} }\<close>\<close>

record APIError =
  Code :: string
  Message :: string
  Details :: "string \<rightharpoonup> json_value"

text \<open>
  The concrete error types of \<open>errors.go\<close>, one constructor per struct, with the fields
  of the struct. \<open>ForeignError\<close> stands for an error value of any other dynamic type
  (for example \<open>ctx.Err()\<close>, or an error wrapping one of the library's). A Go value of
  interface type \<open>error\<close> is an \<open>error option\<close>, \<open>None\<close> being \<open>nil\<close>.
\<close>

datatype error =
    SendlyError APIError int
  | AuthenticationError APIError
  | RateLimitError APIError int
  | InsufficientCreditsError APIError
  | ValidationError APIError "stdlib_error option"
  | NotFoundError APIError
  | NetworkError string "stdlib_error option"
  | ForeignError stdlib_error

text \<open>The zero value of \<open>APIError\<close> with only \<open>Message\<close> set, as the services build it.\<close>

definition apiErrorMessage :: "string \<Rightarrow> APIError" where
  "apiErrorMessage m = \<lparr>Code = [], Message = m, Details = Map.empty\<rparr>"

text \<open>The predicates of \<open>errors.go\<close>: a type assertion on the dynamic type of \<open>err\<close>.\<close>

fun IsAuthenticationError :: "error option \<Rightarrow> bool" where
  "IsAuthenticationError (Some (AuthenticationError a)) = True"
| "IsAuthenticationError e = False"

fun IsRateLimitError :: "error option \<Rightarrow> bool" where
  "IsRateLimitError (Some (RateLimitError a r)) = True"
| "IsRateLimitError e = False"

fun IsInsufficientCreditsError :: "error option \<Rightarrow> bool" where
  "IsInsufficientCreditsError (Some (InsufficientCreditsError a)) = True"
| "IsInsufficientCreditsError e = False"

fun IsValidationError :: "error option \<Rightarrow> bool" where
  "IsValidationError (Some (ValidationError a c)) = True"
| "IsValidationError e = False"

fun IsNotFoundError :: "error option \<Rightarrow> bool" where
  "IsNotFoundError (Some (NotFoundError a)) = True"
| "IsNotFoundError e = False"

fun IsNetworkError :: "error option \<Rightarrow> bool" where
  "IsNetworkError (Some (NetworkError m c)) = True"
| "IsNetworkError e = False"

subsection \<open>Machine integers and \<open>strconv\<close>\<close>

text \<open>The value of an \<open>int64\<close> computation whose exact result is \<open>x\<close>.\<close>

definition wrap64 :: "int \<Rightarrow> int" where
  "wrap64 x = (x + 2 ^ 63) mod 2 ^ 64 - 2 ^ 63"

text \<open>\<open>time.Second\<close>, in nanoseconds.\<close>

definition Second :: int where
  "Second = 1000000000"

text \<open>\<open>x << k\<close> on \<open>int64\<close>: a shift count of 64 or more gives 0.\<close>

definition shl64 :: "int \<Rightarrow> nat \<Rightarrow> int" where
  "shl64 x k = (if 64 \<le> k then 0 else wrap64 (x * 2 ^ k))"

definition isDigit :: "char \<Rightarrow> bool" where
  "isDigit c = (48 \<le> (of_char c :: int) \<and> (of_char c :: int) \<le> 57)"

fun digitsValue :: "int \<Rightarrow> string \<Rightarrow> int" where
  "digitsValue n [] = n"
| "digitsValue n (c # cs) = digitsValue (n * 10 + (of_char c - 48)) cs"

text \<open>
  \<open>strconv.Atoi\<close> as the executor uses it (\<open>retryAfter, _ = strconv.Atoi(ra)\<close>, the error
  dropped): an optional sign and decimal digits; 0 on a syntax error; on a range error
  the nearest \<open>int64\<close>.
\<close>

definition Atoi :: "string \<Rightarrow> int" where
  "Atoi s =
     (let neg = (s \<noteq> [] \<and> hd s = CHR ''-'');
          ds = (if s \<noteq> [] \<and> (hd s = CHR ''-'' \<or> hd s = CHR ''+'') then tl s else s)
      in if ds = [] \<or> \<not> list_all isDigit ds then 0
         else if neg then - min (digitsValue 0 ds) (2 ^ 63)
         else min (digitsValue 0 ds) (2 ^ 63 - 1))"

fun digitChars :: "nat \<Rightarrow> string" where
  "digitChars n =
     (if n < 10 then [''0123456789'' ! n]
      else digitChars (n div 10) @ [''0123456789'' ! (n mod 10)])"

declare digitChars.simps [simp del]

text \<open>\<open>strconv.Itoa\<close>: the decimal text of an integer.\<close>

definition Itoa :: "int \<Rightarrow> string" where
  "Itoa i = (if i < 0 then CHR ''-'' # digitChars (nat (- i)) else digitChars (nat i))"

subsection \<open>HTTP responses and their classification\<close>

text \<open>Response headers; \<open>Header.Get\<close> gives the empty string for an absent header.\<close>

type_synonym header = "string \<rightharpoonup> string"

definition Header_Get :: "header \<Rightarrow> string \<Rightarrow> string" where
  "Header_Get h k = (case h k of None \<Rightarrow> [] | Some v \<Rightarrow> v)"

text \<open>
  The first lines of \<open>handleErrorResponse\<close>: \<open>json.Unmarshal(body, &apiErr)\<close>, given as
  the decoder \<open>um\<close> (\<open>None\<close> when it returns an error), with the fallback of the code.
\<close>

definition parseAPIError :: "(string \<Rightarrow> APIError option) \<Rightarrow> string \<Rightarrow> APIError" where
  "parseAPIError um body =
     (case um body of
        None \<Rightarrow> \<lparr>Code = ''UNKNOWN_ERROR'', Message = body, Details = Map.empty\<rparr>
      | Some a \<Rightarrow> a)"

definition retryAfterOf :: "header \<Rightarrow> int" where
  "retryAfterOf h =
     (let ra = Header_Get h ''Retry-After'' in if ra \<noteq> [] then Atoi ra else 0)"

definition handleErrorResponse ::
  "(string \<Rightarrow> APIError option) \<Rightarrow> int \<Rightarrow> header \<Rightarrow> string \<Rightarrow> error" where
  "handleErrorResponse um status h body =
     (let apiErr = parseAPIError um body
      in if status = 401 then AuthenticationError apiErr
         else if status = 429 then RateLimitError apiErr (retryAfterOf h)
         else if status = 402 then InsufficientCreditsError apiErr
         else if status = 404 then NotFoundError apiErr
         else if status = 400 \<or> status = 422 then ValidationError apiErr None
         else SendlyError apiErr status)"

subsection \<open>Client configuration\<close>

text \<open>
  \<open>http.Client\<close>, reduced to the field the package writes (\<open>Timeout\<close>) and a label
  for the transport it carries. \<open>Client.HTTPClient\<close> is a pointer in the source; the
  model holds the client it points to, so a nil \<open>*http.Client\<close> is outside the model.
\<close>

record http_Client =
  Transport :: string
  hc_Timeout :: int

text \<open>
  \<open>type Client struct\<close>. The \<open>Messages\<close> back pointer is left out; the behaviour of the
  \<open>rateLimiter\<close> is part of the \<open>world\<close> below.
\<close>

record Client =
  BaseURL :: string
  APIKey :: string
  HTTPClient :: http_Client
  MaxRetries :: int
  Timeout :: int
  Debug :: bool

definition DefaultBaseURL :: string where
  "DefaultBaseURL = ''https://sendly.live/api/v1''"

definition DefaultTimeout :: int where
  "DefaultTimeout = 30 * Second"

type_synonym ClientOption = "Client \<Rightarrow> Client"

definition WithBaseURL :: "string \<Rightarrow> ClientOption" where
  "WithBaseURL baseURL c = c\<lparr>BaseURL := baseURL\<rparr>"

definition WithTimeout :: "int \<Rightarrow> ClientOption" where
  "WithTimeout timeout c =
     c\<lparr>Timeout := timeout, HTTPClient := (HTTPClient c)\<lparr>hc_Timeout := timeout\<rparr>\<rparr>"

definition WithHTTPClient :: "http_Client \<Rightarrow> ClientOption" where
  "WithHTTPClient httpClient c = c\<lparr>HTTPClient := httpClient\<rparr>"

definition WithMaxRetries :: "int \<Rightarrow> ClientOption" where
  "WithMaxRetries maxRetries c = c\<lparr>MaxRetries := maxRetries\<rparr>"

definition WithDebug :: "bool \<Rightarrow> ClientOption" where
  "WithDebug debug c = c\<lparr>Debug := debug\<rparr>"

text \<open>\<open>for _, opt := range opts { opt(c) }\<close>\<close>

fun applyOptions :: "ClientOption list \<Rightarrow> Client \<Rightarrow> Client" where
  "applyOptions [] c = c"
| "applyOptions (opt # opts) c = applyOptions opts (opt c)"

definition NewClient :: "string \<Rightarrow> ClientOption list \<Rightarrow> Client" where
  "NewClient apiKey opts =
     applyOptions opts
       \<lparr>BaseURL = DefaultBaseURL, APIKey = apiKey,
        HTTPClient = \<lparr>Transport = [], hc_Timeout = DefaultTimeout\<rparr>,
        MaxRetries = 3, Timeout = DefaultTimeout, Debug = False\<rparr>"

subsection \<open>Request bodies\<close>

record SendMessageRequest =
  To :: string
  Text :: string
  MessageType :: string

record ScheduleMessageRequest =
  sched_To :: string
  sched_Text :: string
  ScheduledAt :: string
  sched_From :: string
  sched_MessageType :: string

record BatchMessageItem =
  item_To :: string
  item_Text :: string

record SendBatchRequest =
  Messages :: "BatchMessageItem list"
  batch_From :: string
  batch_MessageType :: string

record CreateAPIKeyRequest =
  Name :: string
  ExpiresAt :: "string option"

text \<open>The \<open>body interface{}\<close> argument of \<open>request\<close>: the values the services pass.\<close>

datatype payload =
    SendMessageBody SendMessageRequest
  | ScheduleMessageBody ScheduleMessageRequest
  | SendBatchBody SendBatchRequest
  | CreateAPIKeyBody CreateAPIKeyRequest

text \<open>
  The arguments of \<open>request\<close> after \<open>ctx\<close>: method, path, body (\<open>None\<close> for \<open>nil\<close>) and
  whether a \<open>result\<close> pointer is given.
\<close>

record call =
  httpMethod :: string
  path :: string
  body :: "payload option"
  wantResult :: bool

subsection \<open>The world a request runs in\<close>

text \<open>
  What the executor does that can be observed: it asks the rate limiter for a permit,
  it lets a timer of a given \<open>time.Duration\<close> run to its end (\<open>time.After\<close>; a duration
  that is not positive ends at once), and it calls \<open>doRequest\<close> for an attempt, with a
  method and a URL.
\<close>

datatype event =
    AcquirePermit
  | Slept int
  | Attempt int string string

text \<open>What \<open>c.HTTPClient.Do\<close> and \<open>io.ReadAll\<close> give for one attempt.\<close>

datatype transport =
    DoFailed stdlib_error
  | ReadFailed stdlib_error
  | Response int header string

text \<open>
  Everything outside the package that a call depends on:
  \<^item> \<open>limiterWait\<close>: the result of \<open>c.rateLimiter.Wait(ctx)\<close>;
  \<^item> \<open>ctxDone\<close>: whether, in a \<open>select\<close> between \<open>ctx.Done()\<close> and a timer, the
    context wins, given what has happened so far; \<open>ctxErr\<close> is \<open>ctx.Err()\<close> then;
  \<^item> \<open>jsonMarshal\<close>, \<open>newRequest\<close>: the error of \<open>json.Marshal(body)\<close> and of
    \<open>http.NewRequestWithContext\<close>, \<open>None\<close> for \<open>nil\<close>;
  \<^item> \<open>roundTrip\<close>: what the attempt with a given number meets on the network;
  \<^item> \<open>unmarshalAPIError\<close>: \<open>json.Unmarshal\<close> into an \<open>APIError\<close>;
  \<^item> \<open>unmarshalResult\<close>: the error of \<open>json.Unmarshal(respBody, result)\<close>.
\<close>

record world =
  limiterWait :: "stdlib_error option"
  ctxDone :: "event list \<Rightarrow> bool"
  ctxErr :: stdlib_error
  jsonMarshal :: "payload \<Rightarrow> stdlib_error option"
  newRequest :: "string \<Rightarrow> string \<Rightarrow> stdlib_error option"
  roundTrip :: "int \<Rightarrow> transport"
  unmarshalAPIError :: "string \<Rightarrow> APIError option"
  unmarshalResult :: "string \<Rightarrow> stdlib_error option"

subsection \<open>The request executor\<close>

text \<open>
  \<open>doRequest\<close> for the attempt with number \<open>attempt\<close>. The decoded \<open>result\<close> is left
  out: the function returns the \<open>error\<close> of the source.
\<close>

definition doRequest :: "world \<Rightarrow> Client \<Rightarrow> call \<Rightarrow> int \<Rightarrow> error option" where
  "doRequest w c k attempt =
     (let fullURL = BaseURL c @ path k
      in case (case body k of None \<Rightarrow> None | Some b \<Rightarrow> jsonMarshal w b) of
           Some e \<Rightarrow>
             Some (ValidationError (apiErrorMessage ''failed to marshal request body'') (Some e))
         | None \<Rightarrow>
             (case newRequest w (httpMethod k) fullURL of
                Some e \<Rightarrow> Some (NetworkError ''failed to create request'' (Some e))
              | None \<Rightarrow>
                  (case roundTrip w attempt of
                     DoFailed e \<Rightarrow> Some (NetworkError ''request failed'' (Some e))
                   | ReadFailed e \<Rightarrow>
                       Some (NetworkError ''failed to read response body'' (Some e))
                   | Response status h respBody \<Rightarrow>
                       if 400 \<le> status
                       then Some (handleErrorResponse (unmarshalAPIError w) status h respBody)
                       else if wantResult k \<and> respBody \<noteq> []
                       then (case unmarshalResult w respBody of
                               Some e \<Rightarrow>
                                 Some (NetworkError ''failed to unmarshal response'' (Some e))
                             | None \<Rightarrow> None)
                       else None)))"

text \<open>
  The attempt with number \<open>a\<close> of call \<open>k\<close> receives an HTTP response, with the given status,
  headers and body: the request is marshalled and built, and the round trip and the read of
  the body succeed.
\<close>

definition responds :: "world \<Rightarrow> Client \<Rightarrow> call \<Rightarrow> int \<Rightarrow> int \<Rightarrow> header \<Rightarrow> string \<Rightarrow> bool" where
  "responds w c k a status h b =
     ((case body k of None \<Rightarrow> True | Some p \<Rightarrow> jsonMarshal w p = None) \<and>
      newRequest w (httpMethod k) (BaseURL c @ path k) = None \<and>
      roundTrip w a = Response status h b)"

text \<open>
  \<open>select { case <-ctx.Done(): return ctx.Err(); case <-time.After(d): }\<close>: \<open>None\<close> when
  the context wins, otherwise the history with the timer added.
\<close>

definition wait :: "world \<Rightarrow> int \<Rightarrow> event list \<Rightarrow> event list option" where
  "wait w d tr = (if ctxDone w tr then None else Some (tr @ [Slept d]))"

text \<open>\<open>time.Duration(1<<uint(attempt-1)) * time.Second\<close>, computed on \<open>int64\<close>.\<close>

definition backoff :: "int \<Rightarrow> int" where
  "backoff attempt = wrap64 (shl64 1 (nat (attempt - 1)) * Second)"

text \<open>One pass through the body of the retry loop: it returns, or goes on to the next pass.\<close>

datatype step =
    Return "error option" "event list"
  | Continue error "event list"

definition attempt_body :: "world \<Rightarrow> Client \<Rightarrow> call \<Rightarrow> int \<Rightarrow> event list \<Rightarrow> step" where
  "attempt_body w c k attempt tr =
     (case (if 0 < attempt then wait w (backoff attempt) tr else Some tr) of
        None \<Rightarrow> Return (Some (ForeignError (ctxErr w))) tr
      | Some tr1 \<Rightarrow>
          (let tr2 = tr1 @ [Attempt attempt (httpMethod k) (BaseURL c @ path k)]
           in case doRequest w c k attempt of
                None \<Rightarrow> Return None tr2
              | Some err \<Rightarrow>
                  if IsAuthenticationError (Some err) then Return (Some err) tr2
                  else if IsValidationError (Some err) then Return (Some err) tr2
                  else if IsNotFoundError (Some err) then Return (Some err) tr2
                  else if IsInsufficientCreditsError (Some err) then Return (Some err) tr2
                  else (case err of
                          RateLimitError a retryAfter \<Rightarrow>
                            if 0 < retryAfter
                            then (case wait w (wrap64 (retryAfter * Second)) tr2 of
                                    None \<Rightarrow> Return (Some (ForeignError (ctxErr w))) tr2
                                  | Some tr3 \<Rightarrow> Continue err tr3)
                            else Continue err tr2
                        | _ \<Rightarrow> Continue err tr2)))"

text \<open>
  \<open>for attempt := 0; attempt <= c.MaxRetries; attempt++ { ... }; return lastErr\<close>. The
  counter is an \<open>int\<close>, so \<open>attempt++\<close> wraps around; when \<open>MaxRetries\<close> is the largest
  \<open>int64\<close> the condition of the loop never fails. The loop is therefore a partial
  function: \<open>None\<close> when it does not return, otherwise the error it returns and the
  history.
\<close>

partial_function (option) request_loop ::
  "world \<Rightarrow> Client \<Rightarrow> call \<Rightarrow> int \<Rightarrow> error option \<Rightarrow> event list
     \<Rightarrow> (error option \<times> event list) option"
  where
  "request_loop w c k attempt lastErr tr =
     (if attempt \<le> MaxRetries c
      then (case attempt_body w c k attempt tr of
              Return r tr' \<Rightarrow> Some (r, tr')
            | Continue e tr' \<Rightarrow> request_loop w c k (wrap64 (attempt + 1)) (Some e) tr')
      else Some (lastErr, tr))"

text \<open>
  \<open>Client.request\<close>: \<open>None\<close> when it does not return, otherwise the error it returns and
  what it did.
\<close>

type_synonym outcome = "(error option \<times> event list) option"

definition request :: "world \<Rightarrow> Client \<Rightarrow> call \<Rightarrow> outcome" where
  "request w c k =
     (case limiterWait w of
        Some e \<Rightarrow> Some (Some (NetworkError ''rate limiter error'' (Some e)), [AcquirePermit])
      | None \<Rightarrow> request_loop w c k 0 None [AcquirePermit])"

text \<open>
  The number of seconds the answer to attempt \<open>a\<close> asks the client to wait: the
  \<open>RetryAfter\<close> of the \<open>RateLimitError\<close> that \<open>doRequest\<close> returns for it, 0 for any other
  answer.
\<close>

definition retryAfterAsked :: "world \<Rightarrow> Client \<Rightarrow> call \<Rightarrow> int \<Rightarrow> int" where
  "retryAfterAsked w c k a =
     (case doRequest w c k a of Some (RateLimitError x retryAfter) \<Rightarrow> retryAfter | _ \<Rightarrow> 0)"

text \<open>The numbers of the attempts in a history, in order.\<close>

fun attemptsOf :: "event list \<Rightarrow> int list" where
  "attemptsOf [] = []"
| "attemptsOf (Attempt a m u # tr) = a # attemptsOf tr"
| "attemptsOf (e # tr) = attemptsOf tr"

text \<open>
  Reading a history against the waits a server asked for: \<open>R a\<close> is the number of seconds
  the response to attempt \<open>a\<close> asked the client to wait. \<open>owedAfter\<close> is the time (in
  nanoseconds) still to be waited at the end of the history; \<open>waitsRespected\<close> holds when
  no attempt starts while time is owed.
\<close>

fun owedAfter :: "(int \<Rightarrow> int) \<Rightarrow> int \<Rightarrow> event list \<Rightarrow> int" where
  "owedAfter R owed [] = owed"
| "owedAfter R owed (Slept d # tr) = owedAfter R (owed - max 0 d) tr"
| "owedAfter R owed (Attempt a m u # tr) = owedAfter R (R a * Second) tr"
| "owedAfter R owed (AcquirePermit # tr) = owedAfter R owed tr"

fun waitsRespected :: "(int \<Rightarrow> int) \<Rightarrow> int \<Rightarrow> event list \<Rightarrow> bool" where
  "waitsRespected R owed [] = True"
| "waitsRespected R owed (Slept d # tr) = waitsRespected R (owed - max 0 d) tr"
| "waitsRespected R owed (Attempt a m u # tr) = (owed \<le> 0 \<and> waitsRespected R (R a * Second) tr)"
| "waitsRespected R owed (AcquirePermit # tr) = waitsRespected R owed tr"

subsection \<open>Path segments\<close>

text \<open>
  \<open>url.PathEscape\<close>: every byte is kept or written as \<open>%XX\<close>. Kept are the letters, the
  digits, \<open>- _ . ~\<close> and, in a path segment, \<open>$ & + = : @\<close>.
\<close>

definition upperhex :: string where
  "upperhex = ''0123456789ABCDEF''"

definition shouldEscape :: "char \<Rightarrow> bool" where
  "shouldEscape c =
     (let n = (of_char c :: nat)
      in if (97 \<le> n \<and> n \<le> 122) \<or> (65 \<le> n \<and> n \<le> 90) \<or> (48 \<le> n \<and> n \<le> 57) then False
         else if c \<in> set ''-_.~'' then False
         else if c \<in> set ''$&+,/:;=?@'' then c \<in> set ''/;,?''
         else True)"

definition escapeByte :: "char \<Rightarrow> string" where
  "escapeByte c =
     (if shouldEscape c
      then [CHR ''%'', upperhex ! ((of_char c :: nat) div 16), upperhex ! ((of_char c :: nat) mod 16)]
      else [c])"

definition PathEscape :: "string \<Rightarrow> string" where
  "PathEscape s = concat (map escapeByte s)"

subsection \<open>MessagesService\<close>

text \<open>
  Each operation returns, when it returns, the error of the source and the history of
  what the executor did; the history is empty exactly when \<open>request\<close> was not called. The
  decoded result is left out.
\<close>

definition validation :: "string \<Rightarrow> outcome" where
  "validation m = Some (Some (ValidationError (apiErrorMessage m) None), [])"

definition Send :: "world \<Rightarrow> Client \<Rightarrow> SendMessageRequest option \<Rightarrow> outcome"
  where
  "Send w c req =
     (case req of
        None \<Rightarrow> validation ''request is required''
      | Some r \<Rightarrow>
          if To r = [] then validation ''to is required''
          else if Text r = [] then validation ''text is required''
          else request w c
                 \<lparr>httpMethod = ''POST'', path = ''/messages'', body = Some (SendMessageBody r),
                  wantResult = True\<rparr>)"

definition Get :: "world \<Rightarrow> Client \<Rightarrow> string \<Rightarrow> outcome" where
  "Get w c ident =
     (if ident = [] then validation ''message ID is required''
      else request w c
             \<lparr>httpMethod = ''GET'', path = ''/messages/'' @ PathEscape ident, body = None,
              wantResult = True\<rparr>)"

definition Schedule ::
  "world \<Rightarrow> Client \<Rightarrow> ScheduleMessageRequest option \<Rightarrow> outcome" where
  "Schedule w c req =
     (case req of
        None \<Rightarrow> validation ''request is required''
      | Some r \<Rightarrow>
          if sched_To r = [] then validation ''to is required''
          else if sched_Text r = [] then validation ''text is required''
          else if ScheduledAt r = [] then validation ''scheduledAt is required''
          else request w c
                 \<lparr>httpMethod = ''POST'', path = ''/messages/schedule'',
                  body = Some (ScheduleMessageBody r), wantResult = True\<rparr>)"

definition GetScheduled :: "world \<Rightarrow> Client \<Rightarrow> string \<Rightarrow> outcome" where
  "GetScheduled w c ident =
     (if ident = [] then validation ''scheduled message ID is required''
      else request w c
             \<lparr>httpMethod = ''GET'', path = ''/messages/scheduled/'' @ PathEscape ident, body = None,
              wantResult = True\<rparr>)"

definition CancelScheduled :: "world \<Rightarrow> Client \<Rightarrow> string \<Rightarrow> outcome" where
  "CancelScheduled w c ident =
     (if ident = [] then validation ''scheduled message ID is required''
      else request w c
             \<lparr>httpMethod = ''DELETE'', path = ''/messages/scheduled/'' @ PathEscape ident,
              body = None, wantResult = True\<rparr>)"

text \<open>
  The loop \<open>for i, msg := range req.Messages\<close> of \<open>SendBatch\<close>, from index \<open>i\<close> on: the
  error it returns, or \<open>None\<close> when it runs to its end.
\<close>

fun validateMessages :: "int \<Rightarrow> BatchMessageItem list \<Rightarrow> error option" where
  "validateMessages i [] = None"
| "validateMessages i (msg # msgs) =
     (if item_To msg = []
      then Some (ValidationError
                   (apiErrorMessage (''to is required for message at index '' @ Itoa i)) None)
      else if item_Text msg = []
      then Some (ValidationError
                   (apiErrorMessage (''text is required for message at index '' @ Itoa i)) None)
      else validateMessages (i + 1) msgs)"

definition SendBatch ::
  "world \<Rightarrow> Client \<Rightarrow> SendBatchRequest option \<Rightarrow> outcome" where
  "SendBatch w c req =
     (case req of
        None \<Rightarrow> validation ''request is required''
      | Some r \<Rightarrow>
          if Messages r = [] then validation ''messages are required''
          else (case validateMessages 0 (Messages r) of
                  Some e \<Rightarrow> Some (Some e, [])
                | None \<Rightarrow>
                    request w c
                      \<lparr>httpMethod = ''POST'', path = ''/messages/batch'',
                       body = Some (SendBatchBody r), wantResult = True\<rparr>))"

definition GetBatch :: "world \<Rightarrow> Client \<Rightarrow> string \<Rightarrow> outcome" where
  "GetBatch w c batchID =
     (if batchID = [] then validation ''batch ID is required''
      else request w c
             \<lparr>httpMethod = ''GET'', path = ''/messages/batch/'' @ PathEscape batchID, body = None,
              wantResult = True\<rparr>)"

subsection \<open>AccountService\<close>

definition GetAPIKey :: "world \<Rightarrow> Client \<Rightarrow> string \<Rightarrow> outcome" where
  "GetAPIKey w c keyID =
     request w c \<lparr>httpMethod = ''GET'', path = ''/keys/'' @ keyID, body = None, wantResult = True\<rparr>"

definition GetAPIKeyUsage :: "world \<Rightarrow> Client \<Rightarrow> string \<Rightarrow> outcome" where
  "GetAPIKeyUsage w c keyID =
     request w c
       \<lparr>httpMethod = ''GET'', path = ''/keys/'' @ keyID @ ''/usage'', body = None,
        wantResult = True\<rparr>"

definition CreateAPIKeyWithOptions ::
  "world \<Rightarrow> Client \<Rightarrow> CreateAPIKeyRequest \<Rightarrow> outcome" where
  "CreateAPIKeyWithOptions w c req =
     (if Name req = [] then validation ''API key name is required''
      else request w c
             \<lparr>httpMethod = ''POST'', path = ''/account/keys'', body = Some (CreateAPIKeyBody req),
              wantResult = True\<rparr>)"

definition CreateAPIKey :: "world \<Rightarrow> Client \<Rightarrow> string \<Rightarrow> outcome" where
  "CreateAPIKey w c name = CreateAPIKeyWithOptions w c \<lparr>Name = name, ExpiresAt = None\<rparr>"

definition RevokeAPIKey :: "world \<Rightarrow> Client \<Rightarrow> string \<Rightarrow> outcome" where
  "RevokeAPIKey w c keyID =
     (if keyID = [] then validation ''API key ID is required''
      else request w c
             \<lparr>httpMethod = ''DELETE'', path = ''/account/keys/'' @ keyID, body = None,
              wantResult = False\<rparr>)"

subsection \<open>Webhook signatures\<close>

text \<open>\<open>hex.EncodeToString\<close>\<close>

definition hextable :: string where
  "hextable = ''0123456789abcdef''"

definition EncodeToString :: "string \<Rightarrow> string" where
  "EncodeToString s =
     concat (map (\<lambda>c. [hextable ! ((of_char c :: nat) div 16),
                        hextable ! ((of_char c :: nat) mod 16)]) s)"

text \<open>
  \<open>hmac.Equal\<close>, that is \<open>subtle.ConstantTimeCompare(a, b) == 1\<close>: equal lengths, and the
  bitwise or of the bytewise differences is 0.
\<close>

fun differences :: "nat \<Rightarrow> string \<Rightarrow> string \<Rightarrow> nat" where
  "differences v (x # xs) (y # ys) = differences (or v (xor (of_char x) (of_char y))) xs ys"
| "differences v xs ys = v"

definition hmac_Equal :: "string \<Rightarrow> string \<Rightarrow> bool" where
  "hmac_Equal a b = (length a = length b \<and> differences 0 a b = 0)"

text \<open>
  Both functions take the keyed hash as a parameter: \<open>mac key message\<close> is the sum of
  \<open>hmac.New(sha256.New, key)\<close> after writing \<open>message\<close>.
\<close>

definition GenerateSignature :: "(string \<Rightarrow> string \<Rightarrow> string) \<Rightarrow> string \<Rightarrow> string \<Rightarrow> string" where
  "GenerateSignature mac payload secret = ''sha256='' @ EncodeToString (mac secret payload)"

definition VerifySignature ::
  "(string \<Rightarrow> string \<Rightarrow> string) \<Rightarrow> string \<Rightarrow> string \<Rightarrow> string \<Rightarrow> bool" where
  "VerifySignature mac payload signature secret =
     (if payload = [] \<or> signature = [] \<or> secret = [] then False
      else (let expected = ''sha256='' @ EncodeToString (mac secret payload)
            in if length signature \<noteq> length expected then False
               else hmac_Equal signature expected))"

subsection \<open>Test worlds\<close>

text \<open>
  A server that answers the attempt with number \<open>a\<close> by \<open>rt a\<close>, as the \<open>httptest\<close>
  servers of the package's tests do: the permit is granted, the context is never
  cancelled, requests are built, and no body decodes as an \<open>APIError\<close>.
\<close>

definition serverWorld :: "(int \<Rightarrow> transport) \<Rightarrow> world" where
  "serverWorld rt =
     \<lparr>limiterWait = None, ctxDone = (\<lambda>tr. False), ctxErr = ''context canceled'',
      jsonMarshal = (\<lambda>b. None), newRequest = (\<lambda>m u. None), roundTrip = rt,
      unmarshalAPIError = (\<lambda>b. None), unmarshalResult = (\<lambda>b. None)\<rparr>"

text \<open>The same server, called with a context that is cancelled during the first wait.\<close>

definition cancelledWorld :: "(int \<Rightarrow> transport) \<Rightarrow> world" where
  "cancelledWorld rt = (serverWorld rt)\<lparr>ctxDone := (\<lambda>tr. True)\<rparr>"

definition always :: "int \<Rightarrow> header \<Rightarrow> int \<Rightarrow> transport" where
  "always status h a = Response status h []"

text \<open>A server that answers the first attempt in one way and every later one in another.\<close>

definition firstThen :: "transport \<Rightarrow> transport \<Rightarrow> int \<Rightarrow> transport" where
  "firstThen r0 r a = (if a = 0 then r0 else r)"

definition retryAfterHeader :: "string \<Rightarrow> header" where
  "retryAfterHeader v = [''Retry-After'' \<mapsto> v]"

definition testCall :: call where
  "testCall = \<lparr>httpMethod = ''GET'', path = ''/test'', body = None, wantResult = True\<rparr>"

definition noHeader :: header where
  "noHeader = Map.empty"

text \<open>A keyed hash for the tests of the signature helpers: any function will do.\<close>

definition testMac :: "string \<Rightarrow> string \<Rightarrow> string" where
  "testMac key message = key @ message"

definition testBatch :: SendBatchRequest where
  "testBatch =
     \<lparr>Messages = [\<lparr>item_To = ''+1234567890'', item_Text = ''Hello''\<rparr>,
                  \<lparr>item_To = [], item_Text = ''Hello''\<rparr>],
      batch_From = [], batch_MessageType = []\<rparr>"

subsection \<open>The shape of a history\<close>

text \<open>
  What one pass of the retry loop adds to the history when attempt \<open>a\<close> meets a status of
  500 or more.
\<close>

definition serverErrorSegment :: "Client \<Rightarrow> call \<Rightarrow> int \<Rightarrow> event list" where
  "serverErrorSegment c k a =
     (if 0 < a then [Slept (backoff a)] else []) @ [Attempt a (httpMethod k) (BaseURL c @ path k)]"

section \<open>Properties\<close>

subsection \<open>Arithmetic on \<open>int64\<close>\<close>

lemma wrap64_id: "- (2 ^ 63) \<le> x \<Longrightarrow> x < 2 ^ 63 \<Longrightarrow> wrap64 x = x"
  by (simp add: wrap64_def)

lemma wrap64_succ: "0 \<le> a \<Longrightarrow> a < 2 ^ 63 - 1 \<Longrightarrow> wrap64 (a + 1) = a + 1"
  by (rule wrap64_id) simp_all

lemma wrap64_seconds: "0 < r \<Longrightarrow> r \<le> 9223372036 \<Longrightarrow> wrap64 (r * Second) = r * Second"
  by (rule wrap64_id) (simp_all add: Second_def)

subsection \<open>The executor, one pass at a time\<close>

lemma doRequest_responds:
  assumes "responds w c k a status h b" and "400 \<le> status"
  shows "doRequest w c k a = Some (handleErrorResponse (unmarshalAPIError w) status h b)"
  using assms by (auto simp: responds_def doRequest_def split: option.splits)

lemma attemptsOf_append: "attemptsOf (xs @ ys) = attemptsOf xs @ attemptsOf ys"
  by (induction xs rule: attemptsOf.induct) simp_all

lemma owedAfter_append: "owedAfter R d (xs @ ys) = owedAfter R (owedAfter R d xs) ys"
  by (induction R d xs rule: owedAfter.induct) simp_all

lemma waitsRespected_append:
  "waitsRespected R d (xs @ ys) \<longleftrightarrow>
     waitsRespected R d xs \<and> waitsRespected R (owedAfter R d xs) ys"
  by (induction R d xs rule: waitsRespected.induct) simp_all

lemma nonretryable_returns:
  assumes "responds w c k 0 status h b" and "status \<in> {401, 402, 404, 400, 422}"
  shows "attempt_body w c k 0 tr =
           Return (Some (handleErrorResponse (unmarshalAPIError w) status h b))
                  (tr @ [Attempt 0 (httpMethod k) (BaseURL c @ path k)])"
proof -
  have "400 \<le> status" using assms(2) by auto
  then have d: "doRequest w c k 0 = Some (handleErrorResponse (unmarshalAPIError w) status h b)"
    using assms(1) by (rule doRequest_responds[rotated])
  show ?thesis using assms(2)
    by (auto simp: attempt_body_def d handleErrorResponse_def Let_def)
qed

lemma server_error_continues:
  assumes "responds w c k a status h b" and "500 \<le> status" and "\<not> ctxDone w tr"
  shows "attempt_body w c k a tr =
           Continue (SendlyError (parseAPIError (unmarshalAPIError w) b) status)
             (tr @ serverErrorSegment c k a)"
proof -
  have "400 \<le> status" using assms(2) by simp
  then have d: "doRequest w c k a = Some (handleErrorResponse (unmarshalAPIError w) status h b)"
    using assms(1) by (rule doRequest_responds[rotated])
  have e: "handleErrorResponse (unmarshalAPIError w) status h b
            = SendlyError (parseAPIError (unmarshalAPIError w) b) status"
    using assms(2) by (simp add: handleErrorResponse_def)
  show ?thesis using assms(3)
    by (simp add: attempt_body_def d e wait_def Let_def serverErrorSegment_def)
qed

text \<open>
  With a bound on the wait a 429 asks for, a pass keeps the waits: if no time is owed
  before it, no attempt starts while time is owed, and none is owed when it goes on.
\<close>

lemma attempt_body_waits:
  assumes b: "retryAfterAsked w c k a \<le> 9223372036"
    and w0: "waitsRespected (retryAfterAsked w c k) 0 tr"
    and o0: "owedAfter (retryAfterAsked w c k) 0 tr \<le> 0"
  shows "case attempt_body w c k a tr of
           Return r tr' \<Rightarrow> waitsRespected (retryAfterAsked w c k) 0 tr'
         | Continue e tr' \<Rightarrow>
             waitsRespected (retryAfterAsked w c k) 0 tr'
               \<and> owedAfter (retryAfterAsked w c k) 0 tr' \<le> 0"
proof (cases "doRequest w c k a")
  case None
  then have "retryAfterAsked w c k a = 0" by (simp add: retryAfterAsked_def)
  then show ?thesis using w0 o0 None
    by (auto simp: attempt_body_def wait_def Let_def waitsRespected_append owedAfter_append
        max_def)
next
  case (Some err)
  show ?thesis
  proof (cases "\<exists>x ra. err = RateLimitError x ra")
    case True
    then obtain x ra where e: "err = RateLimitError x ra" by blast
    then have R: "retryAfterAsked w c k a = ra" using Some by (simp add: retryAfterAsked_def)
    then have ws: "0 < ra \<Longrightarrow> wrap64 (ra * Second) = ra * Second"
      using b by (intro wrap64_seconds) auto
    have s0: "0 < ra \<Longrightarrow> 0 \<le> ra * Second" by (simp add: Second_def)
    have s1: "\<not> 0 < ra \<Longrightarrow> ra * Second \<le> 0" by (simp add: Second_def mult_le_0_iff)
    show ?thesis using w0 o0 R ws s0 s1
      by (auto simp: attempt_body_def Some e wait_def Let_def waitsRespected_append
          owedAfter_append max_def)
  next
    case False
    then have R: "retryAfterAsked w c k a = 0"
      using Some by (cases err) (simp_all add: retryAfterAsked_def)
    show ?thesis using w0 o0 R False
      by (cases err)
        (auto simp: attempt_body_def Some wait_def Let_def waitsRespected_append
          owedAfter_append max_def)
  qed
qed

text \<open>
  When the context is never done, a pass makes exactly one attempt and hands on what
  \<open>doRequest\<close> returned for it.
\<close>

lemma attempt_body_result:
  assumes nc: "\<forall>tr. \<not> ctxDone w tr"
  shows "case attempt_body w c k a tr of
           Return r tr' \<Rightarrow> attemptsOf tr' = attemptsOf tr @ [a] \<and> r = doRequest w c k a
         | Continue e tr' \<Rightarrow> attemptsOf tr' = attemptsOf tr @ [a] \<and> Some e = doRequest w c k a"
  using nc
  by (auto simp: attempt_body_def wait_def Let_def attemptsOf_append
      split: option.splits error.splits)

lemma attempt_body_extends:
  "(attempt_body w c k a tr = Return r tr' \<longrightarrow> (\<exists>ys. tr' = tr @ ys))
 \<and> (attempt_body w c k a tr = Continue e tr' \<longrightarrow> (\<exists>ys. tr' = tr @ ys))"
  by (auto simp: attempt_body_def wait_def Let_def
      split: if_splits option.splits error.splits)

subsection \<open>The retry loop\<close>

lemma loop_all_continue:
  assumes "MaxRetries c < 2 ^ 63 - 1"
    and "\<forall>a tr. 0 \<le> a \<and> a \<le> MaxRetries c \<longrightarrow>
             attempt_body w c k a tr = Continue (E a) (tr @ seg a)"
  shows "0 \<le> a \<Longrightarrow> a \<le> MaxRetries c \<Longrightarrow> n = nat (MaxRetries c - a) \<Longrightarrow>
         request_loop w c k a lastErr tr =
           Some (Some (E (MaxRetries c)), tr @ concat (map seg [a..MaxRetries c]))"
proof (induction n arbitrary: a lastErr tr)
  case 0
  then have a: "a = MaxRetries c" by simp
  have b: "attempt_body w c k a tr = Continue (E a) (tr @ seg a)"
    using assms(2) "0.prems" by simp
  have w: "wrap64 (a + 1) = a + 1" using "0.prems" assms(1) by (intro wrap64_succ) auto
  show ?case
    by (simp add: request_loop.simps[of w c k a] b w request_loop.simps[of w c k "a + 1"]
        a[symmetric])
next
  case (Suc n)
  then have lt: "a < MaxRetries c" by simp
  have b: "attempt_body w c k a tr = Continue (E a) (tr @ seg a)"
    using assms(2) Suc.prems by simp
  have w: "wrap64 (a + 1) = a + 1" using Suc.prems assms(1) by (intro wrap64_succ) auto
  have "request_loop w c k (a + 1) (Some (E a)) (tr @ seg a) =
          Some (Some (E (MaxRetries c)), (tr @ seg a) @ concat (map seg [a + 1..MaxRetries c]))"
    using Suc.prems lt by (intro Suc.IH) auto
  then show ?case using lt
    by (simp add: request_loop.simps[of w c k a] b w upto_rec1[of a])
qed

text \<open>
  A rule for the loop, for \<open>MaxRetries\<close> below the largest \<open>int64\<close>: the loop returns, and
  an invariant of its passes gives a property of what it returns.
\<close>

lemma request_loop_rule:
  assumes bound: "MaxRetries c < 2 ^ 63 - 1"
    and step: "\<And>a l tr. 0 \<le> a \<Longrightarrow> a \<le> MaxRetries c \<Longrightarrow> I l tr \<Longrightarrow>
                 (case attempt_body w c k a tr of
                    Return r tr' \<Rightarrow> Q r tr'
                  | Continue e tr' \<Rightarrow> I (Some e) tr')"
    and exit: "\<And>l tr. I l tr \<Longrightarrow> Q l tr"
  shows "0 \<le> a \<Longrightarrow> I l tr \<Longrightarrow> n = nat (MaxRetries c + 1 - a) \<Longrightarrow>
         \<exists>r tr'. request_loop w c k a l tr = Some (r, tr') \<and> Q r tr'"
proof (induction n arbitrary: a l tr)
  case 0
  then have "\<not> a \<le> MaxRetries c" by simp
  then show ?case using exit[OF "0.prems"(2)] by (simp add: request_loop.simps[of w c k a])
next
  case (Suc n)
  then have le: "a \<le> MaxRetries c" by simp
  have w: "wrap64 (a + 1) = a + 1" using Suc.prems le bound by (intro wrap64_succ) auto
  show ?case
  proof (cases "attempt_body w c k a tr")
    case (Return r tr')
    then have "Q r tr'" using step[OF Suc.prems(1) le Suc.prems(2)] by simp
    with le Return show ?thesis by (simp add: request_loop.simps[of w c k a])
  next
    case (Continue e tr')
    then have "I (Some e) tr'" using step[OF Suc.prems(1) le Suc.prems(2)] by simp
    then have "\<exists>r tr''. request_loop w c k (a + 1) (Some e) tr' = Some (r, tr'') \<and> Q r tr''"
      using Suc.prems by (intro Suc.IH) auto
    with le Continue w show ?thesis by (simp add: request_loop.simps[of w c k a])
  qed
qed

text \<open>
  When \<open>MaxRetries\<close> is the largest \<open>int64\<close> and every pass goes on, the counter wraps
  around and the loop never returns.
\<close>

lemma request_loop_never_returns:
  assumes "request_loop w c k a lastErr tr = Some y"
  shows "\<not> (MaxRetries c = 2 ^ 63 - 1 \<and> (\<forall>a tr. \<exists>e tr'. attempt_body w c k a tr = Continue e tr')
            \<and> - (2 ^ 63) \<le> a \<and> a < 2 ^ 63)"
proof (rule request_loop.raw_induct
    [where P = "\<lambda>w c k a lastErr tr y.
          \<not> (MaxRetries c = 2 ^ 63 - 1
             \<and> (\<forall>a tr. \<exists>e tr'. attempt_body w c k a tr = Continue e tr')
             \<and> - (2 ^ 63) \<le> a \<and> a < 2 ^ 63)", OF _ assms], goal_cases)
  case (1 loop w c k attempt lastErr tr y)
  show ?case
  proof
    assume h: "MaxRetries c = 2 ^ 63 - 1
        \<and> (\<forall>a tr. \<exists>e tr'. attempt_body w c k a tr = Continue e tr')
        \<and> - (2 ^ 63) \<le> attempt \<and> attempt < 2 ^ 63"
    then obtain e tr' where b: "attempt_body w c k attempt tr = Continue e tr'" by blast
    have le: "attempt \<le> MaxRetries c" using h by simp
    have "loop w c k (wrap64 (attempt + 1)) (Some e) tr' = Some y"
      using le b 1(2) by simp
    moreover have "- (2 ^ 63) \<le> wrap64 (attempt + 1) \<and> wrap64 (attempt + 1) < 2 ^ 63"
      by (simp add: wrap64_def)
    ultimately show False using 1(1) h by blast
  qed
qed

lemma request_loop_extends:
  assumes "request_loop w c k a lastErr tr = Some y"
  shows "\<exists>ys. snd y = tr @ ys"
proof (rule request_loop.raw_induct
    [where P = "\<lambda>w c k a lastErr tr y. \<exists>ys. snd y = tr @ ys", OF _ assms], goal_cases)
  case (1 loop w c k attempt lastErr tr y)
  show ?case
  proof (cases "attempt \<le> MaxRetries c")
    case False
    with 1(2) show ?thesis by auto
  next
    case True
    show ?thesis
    proof (cases "attempt_body w c k attempt tr")
      case (Return r tr')
      then obtain ys where "tr' = tr @ ys" using attempt_body_extends by blast
      with True Return 1(2) show ?thesis by auto
    next
      case (Continue e tr')
      then obtain ys where ys: "tr' = tr @ ys" using attempt_body_extends by blast
      have "loop w c k (wrap64 (attempt + 1)) (Some e) tr' = Some y"
        using True Continue 1(2) by simp
      then obtain zs where "snd y = tr' @ zs" using 1(1) by blast
      with ys show ?thesis by simp
    qed
  qed
qed

text \<open>
  A call of \<open>request\<close> that returns leaves a history that is not empty: an empty history
  means that the executor was not called.
\<close>

lemma request_history_nonempty: "request w c k = Some (r, tr) \<Longrightarrow> tr \<noteq> []"
proof (cases "limiterWait w")
  case None
  assume "request w c k = Some (r, tr)"
  with None have "request_loop w c k 0 None [AcquirePermit] = Some (r, tr)"
    by (simp add: request_def)
  then obtain ys where "snd (r, tr) = [AcquirePermit] @ ys"
    using request_loop_extends by blast
  then show ?thesis by simp
next
  case (Some e)
  assume "request w c k = Some (r, tr)"
  with Some show ?thesis by (auto simp: request_def)
qed

subsection \<open>Classifying error responses\<close>

text \<open>
  C1. For every response with a status of 400 or more, whatever its body, \<open>doRequest\<close>
  returns one error, \<open>handleErrorResponse\<close> of the response, whose variant is fixed by the
  status: 401 gives \<open>AuthenticationError\<close>, 429 \<open>RateLimitError\<close>, 402
  \<open>InsufficientCreditsError\<close>, 404 \<open>NotFoundError\<close>, 400 and 422 \<open>ValidationError\<close>, and every
  other status \<open>SendlyError\<close> carrying that status. The error carries the decoded payload;
  when the body does not decode, the payload has code \<open>UNKNOWN_ERROR\<close> and the raw body as
  its message.
\<close>

theorem doRequest_classifies_error_responses:
  assumes "responds w c k a status h b" and "400 \<le> status"
  shows "doRequest w c k a = Some (handleErrorResponse (unmarshalAPIError w) status h b)
   \<and> (status = 401 \<longrightarrow>
        handleErrorResponse (unmarshalAPIError w) status h b =
          AuthenticationError (parseAPIError (unmarshalAPIError w) b))
   \<and> (status = 429 \<longrightarrow>
        handleErrorResponse (unmarshalAPIError w) status h b =
          RateLimitError (parseAPIError (unmarshalAPIError w) b) (retryAfterOf h))
   \<and> (status = 402 \<longrightarrow>
        handleErrorResponse (unmarshalAPIError w) status h b =
          InsufficientCreditsError (parseAPIError (unmarshalAPIError w) b))
   \<and> (status = 404 \<longrightarrow>
        handleErrorResponse (unmarshalAPIError w) status h b =
          NotFoundError (parseAPIError (unmarshalAPIError w) b))
   \<and> (status = 400 \<or> status = 422 \<longrightarrow>
        handleErrorResponse (unmarshalAPIError w) status h b =
          ValidationError (parseAPIError (unmarshalAPIError w) b) None)
   \<and> (status \<notin> {401, 429, 402, 404, 400, 422} \<longrightarrow>
        handleErrorResponse (unmarshalAPIError w) status h b =
          SendlyError (parseAPIError (unmarshalAPIError w) b) status)
   \<and> (unmarshalAPIError w b = None \<longrightarrow>
        parseAPIError (unmarshalAPIError w) b =
          \<lparr>Code = ''UNKNOWN_ERROR'', Message = b, Details = Map.empty\<rparr>)
   \<and> (\<forall>apiErr. unmarshalAPIError w b = Some apiErr \<longrightarrow>
        parseAPIError (unmarshalAPIError w) b = apiErr)"
  using doRequest_responds[OF assms]
  by (simp add: handleErrorResponse_def parseAPIError_def Let_def)

theorem doRequest_classifies_error_responses_witness:
  "doRequest (serverWorld (\<lambda>a. Response 503 noHeader ''Service Unavailable''))
     (NewClient ''key'' []) testCall 0 =
     Some (SendlyError
             \<lparr>Code = ''UNKNOWN_ERROR'', Message = ''Service Unavailable'', Details = Map.empty\<rparr>
             503)"
  using doRequest_classifies_error_responses
    [of "serverWorld (\<lambda>a. Response 503 noHeader ''Service Unavailable'')"
        "NewClient ''key'' []" testCall 0 503 noHeader "''Service Unavailable''"]
  by (simp add: serverWorld_def responds_def testCall_def)

subsection \<open>Retrying server errors\<close>

lemma attemptsOf_serverErrorSegments:
  "attemptsOf (concat (map (serverErrorSegment c k) xs)) = xs"
  by (induction xs) (simp_all add: attemptsOf_append serverErrorSegment_def)

text \<open>
  C2 (as amended). When the rate limiter grants the permit, the context is not cancelled
  during a wait, and each of the attempts \<open>0..N\<close> (\<open>N\<close> the configured \<open>MaxRetries\<close>,
  \<open>0 \<le> N < 2^63 - 1\<close>) receives a response with a status of 500 or more, \<open>request\<close>
  returns, after exactly the attempts \<open>0, 1, ..., N\<close>, \<open>N + 1\<close> of them, the \<open>SendlyError\<close>
  built from the response to the last one: its payload and its status code.
\<close>

theorem request_retries_server_errors:
  assumes "limiterWait w = None" and nc: "\<forall>tr. \<not> ctxDone w tr"
    and "0 \<le> MaxRetries c" and "MaxRetries c < 2 ^ 63 - 1"
    and r: "\<forall>a. 0 \<le> a \<and> a \<le> MaxRetries c \<longrightarrow>
               responds w c k a (st a) (hs a) (bs a) \<and> 500 \<le> st a"
  shows "\<exists>tr. request w c k =
                Some (Some (SendlyError (parseAPIError (unmarshalAPIError w) (bs (MaxRetries c)))
                              (st (MaxRetries c))), tr)
            \<and> attemptsOf tr = [0..MaxRetries c]
            \<and> int (length (attemptsOf tr)) = MaxRetries c + 1"
proof -
  have "\<forall>a tr. 0 \<le> a \<and> a \<le> MaxRetries c \<longrightarrow>
          attempt_body w c k a tr =
            Continue (SendlyError (parseAPIError (unmarshalAPIError w) (bs a)) (st a))
              (tr @ serverErrorSegment c k a)"
  proof (intro allI impI)
    fix a tr
    assume "0 \<le> a \<and> a \<le> MaxRetries c"
    then have "responds w c k a (st a) (hs a) (bs a)" and "500 \<le> st a" using r by auto
    moreover have "\<not> ctxDone w tr" using nc by simp
    ultimately show "attempt_body w c k a tr =
            Continue (SendlyError (parseAPIError (unmarshalAPIError w) (bs a)) (st a))
              (tr @ serverErrorSegment c k a)"
      by (rule server_error_continues)
  qed
  then have "request_loop w c k 0 None [AcquirePermit] =
          Some (Some (SendlyError (parseAPIError (unmarshalAPIError w) (bs (MaxRetries c)))
                        (st (MaxRetries c))),
                [AcquirePermit] @ concat (map (serverErrorSegment c k) [0..MaxRetries c]))"
    using assms(3,4) by (intro loop_all_continue) auto
  then show ?thesis using assms(1,3)
    by (simp add: request_def attemptsOf_serverErrorSegments)
qed

theorem request_retries_server_errors_witness:
  "\<exists>tr. request (serverWorld (always 503 noHeader)) (NewClient ''key'' [WithMaxRetries 2])
           testCall =
          Some (Some (SendlyError
                        \<lparr>Code = ''UNKNOWN_ERROR'', Message = [], Details = Map.empty\<rparr> 503), tr)
      \<and> attemptsOf tr = [0, 1, 2]"
  using request_retries_server_errors
    [of "serverWorld (always 503 noHeader)" "NewClient ''key'' [WithMaxRetries 2]" testCall
        "\<lambda>a. 503" "\<lambda>a. noHeader" "\<lambda>a. []"]
  by (auto simp add: serverWorld_def always_def responds_def testCall_def NewClient_def
      WithMaxRetries_def parseAPIError_def upto.simps)

text \<open>
  The history of that call: the backoff is one second, then two.
\<close>

lemma server_errors_history:
  "request (serverWorld (always 503 noHeader)) (NewClient ''key'' [WithMaxRetries 2]) testCall =
     Some (Some (SendlyError \<lparr>Code = ''UNKNOWN_ERROR'', Message = [], Details = Map.empty\<rparr> 503),
           [AcquirePermit, Attempt 0 ''GET'' ''https://sendly.live/api/v1/test'',
            Slept 1000000000, Attempt 1 ''GET'' ''https://sendly.live/api/v1/test'',
            Slept 2000000000, Attempt 2 ''GET'' ''https://sendly.live/api/v1/test''])"
  by (simp add: request_def request_loop.simps attempt_body_def doRequest_def wait_def
      serverWorld_def always_def testCall_def NewClient_def WithMaxRetries_def
      DefaultBaseURL_def handleErrorResponse_def parseAPIError_def Let_def wrap64_def Second_def
      backoff_def shl64_def)

text \<open>
  The claim as stated fails when the context is cancelled: with three retries configured
  and a server that always answers 500, a context that is done during the first backoff
  makes \<open>request\<close> return \<open>ctx.Err()\<close> after a single attempt.
\<close>

theorem request_cancelled_during_backoff:
  "MaxRetries (NewClient ''key'' []) = 3
 \<and> request (cancelledWorld (always 500 noHeader)) (NewClient ''key'' []) testCall =
     Some (Some (ForeignError ''context canceled''),
           [AcquirePermit, Attempt 0 ''GET'' ''https://sendly.live/api/v1/test''])"
  by (simp add: request_def request_loop.simps attempt_body_def doRequest_def wait_def
      cancelledWorld_def serverWorld_def always_def testCall_def NewClient_def
      DefaultBaseURL_def handleErrorResponse_def Let_def wrap64_def)

text \<open>
  With \<open>MaxRetries\<close> the largest \<open>int64\<close> and a server that always answers 500, \<open>request\<close>
  does not return.
\<close>

lemma request_never_returns_at_max_int:
  "request (serverWorld (always 500 noHeader))
     (NewClient ''key'' [WithMaxRetries 9223372036854775807]) testCall = None"
proof (rule ccontr)
  let ?w = "serverWorld (always 500 noHeader)"
  let ?c = "NewClient ''key'' [WithMaxRetries 9223372036854775807]"
  assume "request ?w ?c testCall \<noteq> None"
  then obtain y where "request_loop ?w ?c testCall 0 None [AcquirePermit] = Some y"
    by (auto simp: request_def serverWorld_def)
  then have "\<not> (MaxRetries ?c = 2 ^ 63 - 1
      \<and> (\<forall>a tr. \<exists>e tr'. attempt_body ?w ?c testCall a tr = Continue e tr')
      \<and> - (2 ^ 63) \<le> (0::int) \<and> (0::int) < 2 ^ 63)"
    by (rule request_loop_never_returns)
  moreover have "MaxRetries ?c = 2 ^ 63 - 1" by (simp add: NewClient_def WithMaxRetries_def)
  moreover have "\<forall>a tr. \<exists>e tr'. attempt_body ?w ?c testCall a tr = Continue e tr'"
  proof (intro allI)
    fix a tr
    have "responds ?w ?c testCall a 500 noHeader []"
      by (simp add: responds_def serverWorld_def always_def testCall_def)
    moreover have "\<not> ctxDone ?w tr" by (simp add: serverWorld_def)
    ultimately have "attempt_body ?w ?c testCall a tr =
        Continue (SendlyError (parseAPIError (unmarshalAPIError ?w) []) 500)
          (tr @ serverErrorSegment ?c testCall a)"
      by (intro server_error_continues) auto
    then show "\<exists>e tr'. attempt_body ?w ?c testCall a tr = Continue e tr'" by blast
  qed
  ultimately show False by simp
qed

subsection \<open>Errors that are not retried\<close>

text \<open>
  C3. When the first attempt of a request (the permit granted, \<open>MaxRetries \<ge> 0\<close>) receives a
  response with status 401, 402, 404, 400 or 422, \<open>request\<close> makes that one attempt and
  returns the typed error of the response at once, whatever \<open>MaxRetries\<close> is:
  \<open>AuthenticationError\<close> for 401, \<open>InsufficientCreditsError\<close> for 402, \<open>NotFoundError\<close> for
  404, \<open>ValidationError\<close> for 400 and 422.
\<close>

theorem request_stops_on_nonretryable:
  assumes "limiterWait w = None" and "0 \<le> MaxRetries c"
    and "responds w c k 0 status h b" and "status \<in> {401, 402, 404, 400, 422}"
  shows "request w c k =
           Some (Some (handleErrorResponse (unmarshalAPIError w) status h b),
                 [AcquirePermit, Attempt 0 (httpMethod k) (BaseURL c @ path k)])
       \<and> attemptsOf [AcquirePermit, Attempt 0 (httpMethod k) (BaseURL c @ path k)] = [0]
       \<and> IsAuthenticationError (Some (handleErrorResponse (unmarshalAPIError w) status h b))
           = (status = 401)
       \<and> IsInsufficientCreditsError (Some (handleErrorResponse (unmarshalAPIError w) status h b))
           = (status = 402)
       \<and> IsNotFoundError (Some (handleErrorResponse (unmarshalAPIError w) status h b))
           = (status = 404)
       \<and> IsValidationError (Some (handleErrorResponse (unmarshalAPIError w) status h b))
           = (status = 400 \<or> status = 422)"
proof -
  have "request w c k =
           Some (Some (handleErrorResponse (unmarshalAPIError w) status h b),
                 [AcquirePermit, Attempt 0 (httpMethod k) (BaseURL c @ path k)])"
    using assms(1,2) nonretryable_returns[OF assms(3,4), of "[AcquirePermit]"]
    by (simp add: request_def request_loop.simps[of w c k 0])
  then show ?thesis using assms(4)
    by (auto simp: handleErrorResponse_def Let_def)
qed

theorem request_stops_on_nonretryable_witness:
  "request (serverWorld (always 401 noHeader)) (NewClient ''key'' [WithMaxRetries 3]) testCall =
     Some (Some (AuthenticationError
                   \<lparr>Code = ''UNKNOWN_ERROR'', Message = [], Details = Map.empty\<rparr>),
           [AcquirePermit, Attempt 0 ''GET'' ''https://sendly.live/api/v1/test''])"
  using request_stops_on_nonretryable
    [of "serverWorld (always 401 noHeader)" "NewClient ''key'' [WithMaxRetries 3]" testCall
        401 noHeader "[]"]
  by (simp add: serverWorld_def always_def responds_def testCall_def NewClient_def
      WithMaxRetries_def parseAPIError_def handleErrorResponse_def DefaultBaseURL_def)

subsection \<open>Rate limiting\<close>

lemma retryAfterOf_header:
  "retryAfterOf h = (case h ''Retry-After'' of None \<Rightarrow> 0 | Some v \<Rightarrow> Atoi v)"
  by (simp add: retryAfterOf_def Header_Get_def Atoi_def Let_def split: option.splits)

lemma retryAfterAsked_429:
  assumes "responds w c k a 429 h b"
  shows "retryAfterAsked w c k a = retryAfterOf h"
proof -
  have "doRequest w c k a = Some (handleErrorResponse (unmarshalAPIError w) 429 h b)"
    using assms by (rule doRequest_responds) simp
  then show ?thesis by (simp add: retryAfterAsked_def handleErrorResponse_def)
qed

text \<open>
  For every call, whatever the answers and whether or not the context is cancelled:
  \<open>request\<close> returns, and in its history no attempt starts before the timers run since
  the previous answer add up to the seconds that answer asked for.
\<close>

lemma request_waits:
  assumes bound: "MaxRetries c < 2 ^ 63 - 1"
    and ra: "\<forall>a. 0 \<le> a \<and> a \<le> MaxRetries c \<longrightarrow> retryAfterAsked w c k a \<le> 9223372036"
  shows "\<exists>r tr. request w c k = Some (r, tr) \<and> waitsRespected (retryAfterAsked w c k) 0 tr"
proof (cases "limiterWait w")
  case (Some e)
  then show ?thesis by (simp add: request_def)
next
  case None
  let ?R = "retryAfterAsked w c k"
  have "\<exists>r tr'. request_loop w c k 0 None [AcquirePermit] = Some (r, tr')
          \<and> waitsRespected ?R 0 tr'"
  proof (rule request_loop_rule
      [where I = "\<lambda>l tr. waitsRespected ?R 0 tr \<and> owedAfter ?R 0 tr \<le> 0"
         and Q = "\<lambda>r tr. waitsRespected ?R 0 tr", OF bound])
    fix a l tr
    assume a: "0 \<le> a" "a \<le> MaxRetries c"
      and i: "waitsRespected ?R 0 tr \<and> owedAfter ?R 0 tr \<le> 0"
    have "?R a \<le> 9223372036" using ra a by simp
    then show "case attempt_body w c k a tr of
                 Return r tr' \<Rightarrow> waitsRespected ?R 0 tr'
               | Continue e tr' \<Rightarrow> waitsRespected ?R 0 tr' \<and> owedAfter ?R 0 tr' \<le> 0"
      using i by (intro attempt_body_waits) auto
  qed simp_all
  with None show ?thesis by (simp add: request_def)
qed

text \<open>
  When the context is never done, \<open>request\<close> returns what \<open>doRequest\<close> returned for the
  last attempt it made.
\<close>

lemma request_returns_last_answer:
  assumes bound: "MaxRetries c < 2 ^ 63 - 1" and nc: "\<forall>tr. \<not> ctxDone w tr"
  shows "\<exists>r tr. request w c k = Some (r, tr)
           \<and> (attemptsOf tr \<noteq> [] \<longrightarrow> r = doRequest w c k (last (attemptsOf tr)))"
proof (cases "limiterWait w")
  case (Some e)
  then show ?thesis by (simp add: request_def)
next
  case None
  have "\<exists>r tr'. request_loop w c k 0 None [AcquirePermit] = Some (r, tr')
          \<and> (attemptsOf tr' \<noteq> [] \<longrightarrow> r = doRequest w c k (last (attemptsOf tr')))"
  proof (rule request_loop_rule
      [where I = "\<lambda>l tr. attemptsOf tr \<noteq> [] \<longrightarrow> l = doRequest w c k (last (attemptsOf tr))"
         and Q = "\<lambda>r tr. attemptsOf tr \<noteq> [] \<longrightarrow> r = doRequest w c k (last (attemptsOf tr))",
       OF bound])
    fix a l tr
    show "case attempt_body w c k a tr of
            Return r tr' \<Rightarrow>
              attemptsOf tr' \<noteq> [] \<longrightarrow> r = doRequest w c k (last (attemptsOf tr'))
          | Continue e tr' \<Rightarrow>
              attemptsOf tr' \<noteq> [] \<longrightarrow> Some e = doRequest w c k (last (attemptsOf tr'))"
      using attempt_body_result[OF nc, where c = c and k = k and a = a and tr = tr]
      by (cases "attempt_body w c k a tr") simp_all
  qed simp_all
  with None show ?thesis by (simp add: request_def)
qed

text \<open>
  C4 (as amended). For a client with \<open>MaxRetries\<close> below \<open>2^63 - 1\<close> and answers whose
  \<open>Retry-After\<close> is at most 9223372036 seconds (the largest number of seconds a
  \<open>time.Duration\<close> holds), \<open>request\<close> returns, and no attempt starts before the timers run
  since the previous answer add up to the seconds that answer asked for: for a 429, the
  integer value of its \<open>Retry-After\<close> header, 0 when the header is absent. When moreover
  the context is not cancelled during a wait and the last attempt made receives a 429,
  the error returned is the \<open>RateLimitError\<close> of that response, carrying its \<open>Retry-After\<close>.
\<close>

theorem request_honours_retry_after:
  assumes bound: "MaxRetries c < 2 ^ 63 - 1"
    and ra: "\<forall>a. 0 \<le> a \<and> a \<le> MaxRetries c \<longrightarrow> retryAfterAsked w c k a \<le> 9223372036"
  shows "\<exists>r tr. request w c k = Some (r, tr)
       \<and> waitsRespected (retryAfterAsked w c k) 0 tr
       \<and> (\<forall>a h b. responds w c k a 429 h b \<longrightarrow>
             retryAfterAsked w c k a = (case h ''Retry-After'' of None \<Rightarrow> 0 | Some v \<Rightarrow> Atoi v))
       \<and> (\<forall>h b. (\<forall>tr. \<not> ctxDone w tr) \<and> attemptsOf tr \<noteq> []
                 \<and> responds w c k (last (attemptsOf tr)) 429 h b \<longrightarrow>
             r = Some (RateLimitError (parseAPIError (unmarshalAPIError w) b)
                         (case h ''Retry-After'' of None \<Rightarrow> 0 | Some v \<Rightarrow> Atoi v)))"
proof -
  obtain r tr where rt: "request w c k = Some (r, tr)"
    and wr: "waitsRespected (retryAfterAsked w c k) 0 tr"
    using request_waits[OF bound ra] by blast
  have h1: "\<forall>a h b. responds w c k a 429 h b \<longrightarrow>
             retryAfterAsked w c k a = (case h ''Retry-After'' of None \<Rightarrow> 0 | Some v \<Rightarrow> Atoi v)"
    by (simp add: retryAfterAsked_429 retryAfterOf_header)
  have h2: "\<forall>h b. (\<forall>tr. \<not> ctxDone w tr) \<and> attemptsOf tr \<noteq> []
                 \<and> responds w c k (last (attemptsOf tr)) 429 h b \<longrightarrow>
             r = Some (RateLimitError (parseAPIError (unmarshalAPIError w) b)
                         (case h ''Retry-After'' of None \<Rightarrow> 0 | Some v \<Rightarrow> Atoi v))"
  proof (intro allI impI)
    fix h b
    assume a: "(\<forall>tr. \<not> ctxDone w tr) \<and> attemptsOf tr \<noteq> []
                 \<and> responds w c k (last (attemptsOf tr)) 429 h b"
    then have nc: "\<forall>tr. \<not> ctxDone w tr" by simp
    obtain r' tr' where "request w c k = Some (r', tr')"
      and "attemptsOf tr' \<noteq> [] \<longrightarrow> r' = doRequest w c k (last (attemptsOf tr'))"
      using request_returns_last_answer[OF bound nc] by blast
    with rt a have "r = doRequest w c k (last (attemptsOf tr))" by simp
    moreover have "doRequest w c k (last (attemptsOf tr)) =
        Some (handleErrorResponse (unmarshalAPIError w) 429 h b)"
      using a by (intro doRequest_responds) auto
    ultimately show "r = Some (RateLimitError (parseAPIError (unmarshalAPIError w) b)
                         (case h ''Retry-After'' of None \<Rightarrow> 0 | Some v \<Rightarrow> Atoi v))"
      by (simp add: handleErrorResponse_def retryAfterOf_header)
  qed
  show ?thesis using rt wr h1 h2 by blast
qed

lemma retryAfterOf_1: "retryAfterOf (retryAfterHeader ''1'') = 1"
  by (simp add: retryAfterOf_def Header_Get_def retryAfterHeader_def Atoi_def isDigit_def)

lemma retryAfterOf_2: "retryAfterOf (retryAfterHeader ''2'') = 2"
  by (simp add: retryAfterOf_def Header_Get_def retryAfterHeader_def Atoi_def isDigit_def)

theorem request_honours_retry_after_witness:
  "\<exists>r tr. request (serverWorld (always 429 (retryAfterHeader ''2'')))
             (NewClient ''key'' [WithMaxRetries 1]) testCall = Some (r, tr)
        \<and> waitsRespected
            (retryAfterAsked (serverWorld (always 429 (retryAfterHeader ''2'')))
               (NewClient ''key'' [WithMaxRetries 1]) testCall) 0 tr"
  using request_honours_retry_after
    [of "NewClient ''key'' [WithMaxRetries 1]"
        "serverWorld (always 429 (retryAfterHeader ''2''))" testCall]
  by (auto simp add: retryAfterAsked_def doRequest_def serverWorld_def always_def testCall_def
      NewClient_def WithMaxRetries_def handleErrorResponse_def retryAfterOf_2)

text \<open>
  The history of that call, where every attempt meets a 429 asking for two seconds: the
  server's two seconds, then the backoff of one second.
\<close>

lemma retry_after_every_attempt:
  "request (serverWorld (always 429 (retryAfterHeader ''2'')))
     (NewClient ''key'' [WithMaxRetries 1]) testCall =
   Some (Some (RateLimitError \<lparr>Code = ''UNKNOWN_ERROR'', Message = [], Details = Map.empty\<rparr> 2),
         [AcquirePermit, Attempt 0 ''GET'' ''https://sendly.live/api/v1/test'',
          Slept 2000000000, Slept 1000000000,
          Attempt 1 ''GET'' ''https://sendly.live/api/v1/test'', Slept 2000000000])"
  by (simp add: request_def request_loop.simps attempt_body_def doRequest_def wait_def
      serverWorld_def always_def testCall_def NewClient_def WithMaxRetries_def
      DefaultBaseURL_def handleErrorResponse_def parseAPIError_def Let_def retryAfterOf_2
      wrap64_def Second_def backoff_def shl64_def)

text \<open>
  A 429 asking for one second, then success: the second attempt starts after the server's
  second and the backoff.
\<close>

lemma retry_after_then_success:
  "request (serverWorld (firstThen (Response 429 (retryAfterHeader ''1'') [])
                                    (Response 200 noHeader [])))
     (NewClient ''key'' [WithMaxRetries 3]) testCall =
   Some (None,
         [AcquirePermit, Attempt 0 ''GET'' ''https://sendly.live/api/v1/test'',
          Slept 1000000000, Slept 1000000000,
          Attempt 1 ''GET'' ''https://sendly.live/api/v1/test''])"
  by (simp add: request_def request_loop.simps attempt_body_def doRequest_def wait_def
      serverWorld_def firstThen_def testCall_def NewClient_def WithMaxRetries_def
      DefaultBaseURL_def handleErrorResponse_def Let_def retryAfterOf_1 wrap64_def Second_def
      backoff_def shl64_def)

text \<open>
  The claim as stated fails when the context is cancelled: the only attempt made receives
  a 429, and \<open>request\<close> returns \<open>ctx.Err()\<close>, which is not a \<open>RateLimitError\<close>.
\<close>

theorem rate_limited_request_cancelled:
  "request (cancelledWorld (always 429 (retryAfterHeader ''2'')))
     (NewClient ''key'' [WithMaxRetries 1]) testCall =
     Some (Some (ForeignError ''context canceled''),
           [AcquirePermit, Attempt 0 ''GET'' ''https://sendly.live/api/v1/test''])
 \<and> \<not> IsRateLimitError (Some (ForeignError ''context canceled''))"
  by (simp add: request_def request_loop.simps attempt_body_def doRequest_def wait_def
      cancelledWorld_def serverWorld_def always_def testCall_def NewClient_def WithMaxRetries_def
      DefaultBaseURL_def handleErrorResponse_def Let_def retryAfterOf_2)

text \<open>
  It fails as well when a later attempt fails in another way: after a 429 and then a 500
  every attempt has failed, and the error returned is the \<open>SendlyError\<close> of the 500.
\<close>

lemma rate_limit_then_server_error:
  "request (serverWorld (firstThen (Response 429 (retryAfterHeader ''1'') [])
                                    (Response 500 noHeader [])))
     (NewClient ''key'' [WithMaxRetries 1]) testCall =
   Some (Some (SendlyError \<lparr>Code = ''UNKNOWN_ERROR'', Message = [], Details = Map.empty\<rparr> 500),
         [AcquirePermit, Attempt 0 ''GET'' ''https://sendly.live/api/v1/test'',
          Slept 1000000000, Slept 1000000000,
          Attempt 1 ''GET'' ''https://sendly.live/api/v1/test''])"
  by (simp add: request_def request_loop.simps attempt_body_def doRequest_def wait_def
      serverWorld_def firstThen_def testCall_def NewClient_def WithMaxRetries_def
      DefaultBaseURL_def handleErrorResponse_def parseAPIError_def Let_def retryAfterOf_1
      wrap64_def Second_def backoff_def shl64_def)

text \<open>
  Beyond 9223372036 seconds the product \<open>time.Duration(RetryAfter) * time.Second\<close> wraps
  around: for \<open>Retry-After: 9223372037\<close> the timer is given a negative duration and ends at
  once, and the next attempt starts after the backoff of one second alone.
\<close>

lemma retryAfterOf_huge: "retryAfterOf (retryAfterHeader ''9223372037'') = 9223372037"
  by (simp add: retryAfterOf_def Header_Get_def retryAfterHeader_def Atoi_def isDigit_def)

lemma retry_after_overflow:
  "request (serverWorld (firstThen (Response 429 (retryAfterHeader ''9223372037'') [])
                                    (Response 200 noHeader [])))
     (NewClient ''key'' [WithMaxRetries 1]) testCall =
   Some (None,
         [AcquirePermit, Attempt 0 ''GET'' ''https://sendly.live/api/v1/test'',
          Slept (- 9223372036709551616), Slept 1000000000,
          Attempt 1 ''GET'' ''https://sendly.live/api/v1/test''])
 \<and> \<not> waitsRespected
        (retryAfterAsked
           (serverWorld (firstThen (Response 429 (retryAfterHeader ''9223372037'') [])
                                   (Response 200 noHeader [])))
           (NewClient ''key'' [WithMaxRetries 1]) testCall) 0
        [AcquirePermit, Attempt 0 ''GET'' ''https://sendly.live/api/v1/test'',
         Slept (- 9223372036709551616), Slept 1000000000,
         Attempt 1 ''GET'' ''https://sendly.live/api/v1/test'']"
  by (simp add: request_def request_loop.simps attempt_body_def doRequest_def wait_def
      serverWorld_def firstThen_def testCall_def NewClient_def WithMaxRetries_def
      DefaultBaseURL_def handleErrorResponse_def Let_def retryAfterOf_huge wrap64_def Second_def
      backoff_def shl64_def retryAfterAsked_def)

subsection \<open>Batch validation\<close>

lemma apiErrorMessage_fields:
  "Code (apiErrorMessage m) = [] \<and> Message (apiErrorMessage m) = m
 \<and> Details (apiErrorMessage m) = Map.empty"
  by (simp add: apiErrorMessage_def)

text \<open>
  \<open>strconv.Itoa\<close> of an index is its decimal numeral: digits only, with the value of the
  index, and no leading zero.
\<close>

lemma digit_char:
  assumes "d < 10"
  shows "isDigit (''0123456789'' ! d)
       \<and> (of_char (''0123456789'' ! d) :: int) = 48 + int d
       \<and> (''0123456789'' ! d = CHR ''0'' \<longrightarrow> d = 0)"
proof -
  have "d = 0 \<or> d = 1 \<or> d = 2 \<or> d = 3 \<or> d = 4 \<or> d = 5 \<or> d = 6 \<or> d = 7 \<or> d = 8 \<or> d = 9"
    using assms by arith
  then show ?thesis by (elim disjE) (simp_all add: isDigit_def)
qed

lemma digitsValue_append: "digitsValue v (xs @ ys) = digitsValue (digitsValue v xs) ys"
  by (induction xs arbitrary: v) simp_all

lemma digitChars_decimal:
  "digitChars n \<noteq> [] \<and> list_all isDigit (digitChars n)
 \<and> digitsValue 0 (digitChars n) = int n
 \<and> (hd (digitChars n) = CHR ''0'' \<longrightarrow> n = 0)"
proof (induction n rule: digitChars.induct)
  case (1 n)
  show ?case
  proof (cases "n < 10")
    case True
    then have "digitChars n = [''0123456789'' ! n]" by (subst digitChars.simps) simp
    then show ?thesis using digit_char[OF True] by simp
  next
    case False
    then have e: "digitChars n = digitChars (n div 10) @ [''0123456789'' ! (n mod 10)]"
      by (subst digitChars.simps) simp
    have d: "isDigit (''0123456789'' ! (n mod 10))
       \<and> (of_char (''0123456789'' ! (n mod 10)) :: int) = 48 + int (n mod 10)"
      using digit_char[of "n mod 10"] by simp
    have ih: "digitChars (n div 10) \<noteq> [] \<and> list_all isDigit (digitChars (n div 10))
       \<and> digitsValue 0 (digitChars (n div 10)) = int (n div 10)
       \<and> (hd (digitChars (n div 10)) = CHR ''0'' \<longrightarrow> n div 10 = 0)"
      using "1.IH"[OF False] .
    have "int (n div 10) * 10 + int (n mod 10) = int n"
      by (simp add: zdiv_int zmod_int)
    moreover have "n div 10 \<noteq> 0" using False by simp
    ultimately show ?thesis using d ih by (simp add: e digitsValue_append)
  qed
qed

lemma Itoa_decimal:
  "Itoa (int j) \<noteq> [] \<and> list_all isDigit (Itoa (int j))
 \<and> digitsValue 0 (Itoa (int j)) = int j
 \<and> (hd (Itoa (int j)) = CHR ''0'' \<longrightarrow> j = 0)"
  using digitChars_decimal[of j] by (simp add: Itoa_def)

lemma validateMessages_None:
  "validateMessages i msgs = None \<longleftrightarrow> (\<forall>m \<in> set msgs. item_To m \<noteq> [] \<and> item_Text m \<noteq> [])"
  by (induction msgs arbitrary: i) auto

lemma validateMessages_first:
  assumes "j < length msgs"
    and "item_To (msgs ! j) = [] \<or> item_Text (msgs ! j) = []"
    and "\<forall>l < j. item_To (msgs ! l) \<noteq> [] \<and> item_Text (msgs ! l) \<noteq> []"
  shows "validateMessages i msgs =
           Some (ValidationError
                   (apiErrorMessage
                      ((if item_To (msgs ! j) = [] then ''to'' else ''text'')
                         @ '' is required for message at index '' @ Itoa (i + int j))) None)"
  using assms
proof (induction msgs arbitrary: i j)
  case Nil
  then show ?case by simp
next
  case (Cons m msgs)
  show ?case
  proof (cases j)
    case 0
    with Cons.prems show ?thesis by auto
  next
    case (Suc j')
    have v: "item_To m \<noteq> [] \<and> item_Text m \<noteq> []" using Cons.prems(3) Suc by auto
    have "validateMessages (i + 1) msgs =
           Some (ValidationError
                   (apiErrorMessage
                      ((if item_To (msgs ! j') = [] then ''to'' else ''text'')
                         @ '' is required for message at index '' @ Itoa (i + 1 + int j'))) None)"
      using Cons.prems Suc by (intro Cons.IH) auto
    with v Suc show ?thesis by (simp add: add.assoc)
  qed
qed

text \<open>
  C7. \<open>SendBatch\<close> checks every item before it calls the executor: unless it returns
  with an empty history, the request is not nil, has at least one message, and every
  message has a \<open>to\<close> and a \<open>text\<close>. When some item is invalid, the operation returns,
  without calling the executor, the \<open>ValidationError\<close> of the first invalid item, at
  zero-based index \<open>j\<close>: its \<open>Message\<close> is \<open>to is required for message at index j\<close>, or
  \<open>text is required for message at index j\<close> when only the text is missing, \<open>j\<close> written
  as its decimal numeral. For the batch of two items whose second has an empty \<open>to\<close>, the
  message ends in \<open>index 1\<close>.
\<close>

theorem SendBatch_validates_items:
  "((\<forall>e. SendBatch w c req \<noteq> Some (e, [])) \<longrightarrow>
      (\<exists>r. req = Some r \<and> Messages r \<noteq> []
          \<and> (\<forall>m \<in> set (Messages r). item_To m \<noteq> [] \<and> item_Text m \<noteq> [])))
 \<and> (\<forall>r j. req = Some r \<and> j < length (Messages r)
        \<and> (item_To (Messages r ! j) = [] \<or> item_Text (Messages r ! j) = [])
        \<and> (\<forall>l < j. item_To (Messages r ! l) \<noteq> [] \<and> item_Text (Messages r ! l) \<noteq> [])
      \<longrightarrow> SendBatch w c req =
            Some (Some (ValidationError
                          \<lparr>Code = [],
                           Message = (if item_To (Messages r ! j) = [] then ''to'' else ''text'')
                                       @ '' is required for message at index '' @ Itoa (int j),
                           Details = Map.empty\<rparr> None),
                  [])
          \<and> Itoa (int j) \<noteq> [] \<and> list_all isDigit (Itoa (int j))
          \<and> digitsValue 0 (Itoa (int j)) = int j
          \<and> (hd (Itoa (int j)) = CHR ''0'' \<longrightarrow> j = 0))"
proof (intro conjI allI impI)
  assume "\<forall>e. SendBatch w c req \<noteq> Some (e, [])"
  then show "\<exists>r. req = Some r \<and> Messages r \<noteq> []
          \<and> (\<forall>m \<in> set (Messages r). item_To m \<noteq> [] \<and> item_Text m \<noteq> [])"
    by (auto simp: SendBatch_def validation_def split: option.splits if_splits
        dest: validateMessages_None[THEN iffD1])
next
  fix r j
  assume a: "req = Some r \<and> j < length (Messages r)
        \<and> (item_To (Messages r ! j) = [] \<or> item_Text (Messages r ! j) = [])
        \<and> (\<forall>l < j. item_To (Messages r ! l) \<noteq> [] \<and> item_Text (Messages r ! l) \<noteq> [])"
  then have ne: "Messages r \<noteq> []" by auto
  have "validateMessages 0 (Messages r) =
           Some (ValidationError
                   (apiErrorMessage
                      ((if item_To (Messages r ! j) = [] then ''to'' else ''text'')
                         @ '' is required for message at index '' @ Itoa (0 + int j))) None)"
    using a by (intro validateMessages_first) auto
  with a ne show "SendBatch w c req =
            Some (Some (ValidationError
                          \<lparr>Code = [],
                           Message = (if item_To (Messages r ! j) = [] then ''to'' else ''text'')
                                       @ '' is required for message at index '' @ Itoa (int j),
                           Details = Map.empty\<rparr> None),
                  [])"
    by (simp add: SendBatch_def apiErrorMessage_def)
next
  fix r j
  show "Itoa (int j) \<noteq> []" using Itoa_decimal[of j] by simp
  show "list_all isDigit (Itoa (int j))" using Itoa_decimal[of j] by simp
  show "digitsValue 0 (Itoa (int j)) = int j" using Itoa_decimal[of j] by simp
  show "hd (Itoa (int j)) = CHR ''0'' \<Longrightarrow> j = 0" using Itoa_decimal[of j] by simp
qed

theorem SendBatch_validates_items_witness:
  "SendBatch (serverWorld (always 200 noHeader)) (NewClient ''key'' []) (Some testBatch) =
     Some (Some (ValidationError
                   \<lparr>Code = [], Message = ''to is required for message at index 1'',
                    Details = Map.empty\<rparr> None), [])"
  using SendBatch_validates_items
    [of "serverWorld (always 200 noHeader)" "NewClient ''key'' []" "Some testBatch",
     THEN conjunct2, rule_format, of testBatch 1]
  by (simp add: testBatch_def Itoa_def digitChars.simps less_Suc_eq)

subsection \<open>The error predicates\<close>

text \<open>
  C9. Each of \<open>IsAuthenticationError\<close>, \<open>IsRateLimitError\<close>, \<open>IsInsufficientCreditsError\<close>,
  \<open>IsValidationError\<close>, \<open>IsNotFoundError\<close> and \<open>IsNetworkError\<close> is true of an error value
  exactly when the value is of that variant; so it is false of \<open>nil\<close>, of every other
  variant and of an error from outside the package.
\<close>

theorem error_predicates_exact:
  "(IsAuthenticationError e \<longleftrightarrow> (\<exists>a. e = Some (AuthenticationError a)))
 \<and> (IsRateLimitError e \<longleftrightarrow> (\<exists>a r. e = Some (RateLimitError a r)))
 \<and> (IsInsufficientCreditsError e \<longleftrightarrow> (\<exists>a. e = Some (InsufficientCreditsError a)))
 \<and> (IsValidationError e \<longleftrightarrow> (\<exists>a x. e = Some (ValidationError a x)))
 \<and> (IsNotFoundError e \<longleftrightarrow> (\<exists>a. e = Some (NotFoundError a)))
 \<and> (IsNetworkError e \<longleftrightarrow> (\<exists>m x. e = Some (NetworkError m x)))"
proof (cases e)
  case None
  then show ?thesis by simp
next
  case (Some err)
  then show ?thesis by (cases err) simp_all
qed

text \<open>
  Instances: \<open>nil\<close>, an unrelated error, another variant.
\<close>

lemma error_predicates_nil_and_foreign:
  "\<not> IsAuthenticationError None \<and> \<not> IsRateLimitError None
 \<and> \<not> IsInsufficientCreditsError None \<and> \<not> IsValidationError None
 \<and> \<not> IsNotFoundError None \<and> \<not> IsNetworkError None
 \<and> \<not> IsAuthenticationError (Some (ForeignError x)) \<and> \<not> IsRateLimitError (Some (ForeignError x))
 \<and> \<not> IsInsufficientCreditsError (Some (ForeignError x))
 \<and> \<not> IsValidationError (Some (ForeignError x))
 \<and> \<not> IsNotFoundError (Some (ForeignError x)) \<and> \<not> IsNetworkError (Some (ForeignError x))
 \<and> \<not> IsAuthenticationError (Some (SendlyError a s))
 \<and> \<not> IsValidationError (Some (AuthenticationError a))"
  by simp

subsection \<open>Client options\<close>

text \<open>
  C8. A client built with no option has the documented defaults: the production base URL,
  a timeout of 30 seconds, 3 retries. A client built with one option (\<open>WithBaseURL\<close>,
  \<open>WithTimeout\<close>, \<open>WithMaxRetries\<close>, \<open>WithHTTPClient\<close>, \<open>WithDebug\<close>) set to a value holds that
  value, unchanged, in the field the option names.
\<close>

theorem NewClient_options:
  "NewClient apiKey [] =
     \<lparr>BaseURL = ''https://sendly.live/api/v1'', APIKey = apiKey,
      HTTPClient = \<lparr>Transport = [], hc_Timeout = 30 * Second\<rparr>,
      MaxRetries = 3, Timeout = 30 * Second, Debug = False\<rparr>
 \<and> BaseURL (NewClient apiKey [WithBaseURL baseURL]) = baseURL
 \<and> Timeout (NewClient apiKey [WithTimeout timeout]) = timeout
 \<and> hc_Timeout (HTTPClient (NewClient apiKey [WithTimeout timeout])) = timeout
 \<and> MaxRetries (NewClient apiKey [WithMaxRetries maxRetries]) = maxRetries
 \<and> HTTPClient (NewClient apiKey [WithHTTPClient httpClient]) = httpClient
 \<and> Debug (NewClient apiKey [WithDebug debug]) = debug"
  by (simp add: NewClient_def DefaultBaseURL_def DefaultTimeout_def WithBaseURL_def
      WithTimeout_def WithMaxRetries_def WithHTTPClient_def WithDebug_def)

text \<open>
  More generally, the last option given for a field decides it.
\<close>

lemma applyOptions_append: "applyOptions (xs @ ys) c = applyOptions ys (applyOptions xs c)"
  by (induction xs arbitrary: c) simp_all

lemma NewClient_last_option:
  "BaseURL (NewClient apiKey (opts @ [WithBaseURL baseURL])) = baseURL
 \<and> Timeout (NewClient apiKey (opts @ [WithTimeout timeout])) = timeout
 \<and> MaxRetries (NewClient apiKey (opts @ [WithMaxRetries maxRetries])) = maxRetries
 \<and> HTTPClient (NewClient apiKey (opts @ [WithHTTPClient httpClient])) = httpClient
 \<and> Debug (NewClient apiKey (opts @ [WithDebug debug])) = debug"
  by (simp add: NewClient_def applyOptions_append WithBaseURL_def
      WithTimeout_def WithMaxRetries_def WithHTTPClient_def WithDebug_def)

subsection \<open>Webhook signatures\<close>

lemma differences_same: "differences v xs xs = v"
  by (induction xs arbitrary: v) simp_all

lemma hmac_Equal_refl: "hmac_Equal a a"
  by (simp add: hmac_Equal_def differences_same)

text \<open>
  C10. For a payload and a secret that are not empty, \<open>VerifySignature\<close> accepts the
  signature \<open>GenerateSignature\<close> makes for them; and \<open>VerifySignature\<close> is false whenever the
  payload, the signature or the secret is the empty string.
\<close>

theorem VerifySignature_GenerateSignature:
  "(payload \<noteq> [] \<and> secret \<noteq> [] \<longrightarrow>
      VerifySignature mac payload (GenerateSignature mac payload secret) secret)
 \<and> (payload = [] \<or> signature = [] \<or> secret = [] \<longrightarrow>
      \<not> VerifySignature mac payload signature secret)"
  by (auto simp add: VerifySignature_def GenerateSignature_def hmac_Equal_refl Let_def)

theorem VerifySignature_GenerateSignature_witness:
  "VerifySignature testMac ''{}'' (GenerateSignature testMac ''{}'' ''whsec'') ''whsec''
 \<and> \<not> VerifySignature testMac [] (GenerateSignature testMac [] ''whsec'') ''whsec''"
  using VerifySignature_GenerateSignature[of "''{}''" "''whsec''" testMac "[]"]
    VerifySignature_GenerateSignature
      [of "[]" "''whsec''" testMac "GenerateSignature testMac [] ''whsec''"]
  by simp

subsection \<open>Identifiers in request paths\<close>

text \<open>
  An escaped path segment holds no \<open>/\<close>.
\<close>

lemma of_char_less_256: "(of_char c :: nat) < 256"
  by (cases c) simp

lemma upperhex_nth_no_slash: "n < 16 \<Longrightarrow> CHR ''/'' \<noteq> upperhex ! n"
proof -
  assume "n < 16"
  then have "n < length upperhex" by (simp add: upperhex_def)
  then have "upperhex ! n \<in> set upperhex" by (rule nth_mem)
  then show ?thesis by (auto simp: upperhex_def)
qed

lemma escapeByte_no_slash: "CHR ''/'' \<notin> set (escapeByte c)"
proof (cases "shouldEscape c")
  case True
  have "(of_char c :: nat) div 16 < 16" using of_char_less_256[of c] by arith
  moreover have "(of_char c :: nat) mod 16 < 16" by simp
  ultimately show ?thesis using True by (simp add: escapeByte_def upperhex_nth_no_slash)
next
  case False
  then have "c \<noteq> CHR ''/''" by (auto simp: shouldEscape_def Let_def)
  with False show ?thesis by (simp add: escapeByte_def)
qed

lemma PathEscape_no_slash: "CHR ''/'' \<notin> set (PathEscape s)"
  by (simp add: PathEscape_def escapeByte_no_slash)

lemma PathEscape_example: "PathEscape ''msg/123/test'' = ''msg%2F123%2Ftest''"
  by (simp add: PathEscape_def escapeByte_def shouldEscape_def upperhex_def)

text \<open>
  The operations of \<open>MessagesService\<close> that take an identifier put it into the path
  through \<open>url.PathEscape\<close>, so it stays one segment.
\<close>

lemma MessagesService_escapes_identifiers:
  assumes "ident \<noteq> []"
  shows "Get w c ident =
           request w c \<lparr>httpMethod = ''GET'', path = ''/messages/'' @ PathEscape ident,
                        body = None, wantResult = True\<rparr>"
    and "GetScheduled w c ident =
           request w c \<lparr>httpMethod = ''GET'', path = ''/messages/scheduled/'' @ PathEscape ident,
                        body = None, wantResult = True\<rparr>"
    and "CancelScheduled w c ident =
           request w c \<lparr>httpMethod = ''DELETE'', path = ''/messages/scheduled/'' @ PathEscape ident,
                        body = None, wantResult = True\<rparr>"
    and "GetBatch w c ident =
           request w c \<lparr>httpMethod = ''GET'', path = ''/messages/batch/'' @ PathEscape ident,
                        body = None, wantResult = True\<rparr>"
    and "CHR ''/'' \<notin> set (PathEscape ident)"
  using assms
  by (simp_all add: Get_def GetScheduled_def CancelScheduled_def GetBatch_def PathEscape_no_slash)

lemma Get_escapes_slash:
  "Get (serverWorld (always 200 noHeader)) (NewClient ''key'' []) ''a/b'' =
     Some (None, [AcquirePermit, Attempt 0 ''GET'' ''https://sendly.live/api/v1/messages/a%2Fb''])"
  by (simp add: Get_def PathEscape_def escapeByte_def shouldEscape_def upperhex_def
      request_def request_loop.simps attempt_body_def doRequest_def
      serverWorld_def always_def NewClient_def DefaultBaseURL_def Let_def)

text \<open>
  C5. The operations of \<open>AccountService\<close> that take a key identifier do not: \<open>GetAPIKey\<close>
  appends the identifier as it is. For the identifier \<open>a/b\<close> the request goes to
  \<open>/keys/a/b\<close>, where the identifier spans two path segments, while \<open>MessagesService.Get\<close>
  sends the same identifier as the single segment \<open>a%2Fb\<close>.
\<close>

theorem GetAPIKey_does_not_escape:
  "GetAPIKey (serverWorld (always 200 noHeader)) (NewClient ''key'' []) ''a/b'' =
     Some (None, [AcquirePermit, Attempt 0 ''GET'' ''https://sendly.live/api/v1/keys/a/b''])"
  by (simp add: GetAPIKey_def
      request_def request_loop.simps attempt_body_def doRequest_def
      serverWorld_def always_def NewClient_def DefaultBaseURL_def Let_def)

text \<open>
  The paths \<open>AccountService\<close> builds from a key identifier, for every identifier.
\<close>

lemma AccountService_paths:
  "GetAPIKey w c keyID =
     request w c \<lparr>httpMethod = ''GET'', path = ''/keys/'' @ keyID, body = None, wantResult = True\<rparr>"
  "GetAPIKeyUsage w c keyID =
     request w c \<lparr>httpMethod = ''GET'', path = ''/keys/'' @ keyID @ ''/usage'', body = None,
                  wantResult = True\<rparr>"
  "keyID \<noteq> [] \<Longrightarrow> RevokeAPIKey w c keyID =
     request w c \<lparr>httpMethod = ''DELETE'', path = ''/account/keys/'' @ keyID, body = None,
                  wantResult = False\<rparr>"
  by (simp_all add: GetAPIKey_def GetAPIKeyUsage_def RevokeAPIKey_def)

subsection \<open>Local validation\<close>

text \<open>
  The checks the services make before they call the executor: each returns a
  \<open>ValidationError\<close> that names the missing field, and the history stays empty.
\<close>

lemma local_validation_makes_no_call:
  "Send w c None = Some (Some (ValidationError (apiErrorMessage ''request is required'') None), [])"
  "To r = [] \<Longrightarrow>
     Send w c (Some r) = Some (Some (ValidationError (apiErrorMessage ''to is required'') None), [])"
  "To r \<noteq> [] \<Longrightarrow> Text r = [] \<Longrightarrow>
     Send w c (Some r) = Some (Some (ValidationError (apiErrorMessage ''text is required'') None), [])"
  "Get w c [] = Some (Some (ValidationError (apiErrorMessage ''message ID is required'') None), [])"
  "Schedule w c None =
     Some (Some (ValidationError (apiErrorMessage ''request is required'') None), [])"
  "sched_To s = [] \<Longrightarrow>
     Schedule w c (Some s) = Some (Some (ValidationError (apiErrorMessage ''to is required'') None), [])"
  "sched_To s \<noteq> [] \<Longrightarrow> sched_Text s = [] \<Longrightarrow>
     Schedule w c (Some s) =
       Some (Some (ValidationError (apiErrorMessage ''text is required'') None), [])"
  "sched_To s \<noteq> [] \<Longrightarrow> sched_Text s \<noteq> [] \<Longrightarrow> ScheduledAt s = [] \<Longrightarrow>
     Schedule w c (Some s) =
       Some (Some (ValidationError (apiErrorMessage ''scheduledAt is required'') None), [])"
  "GetScheduled w c [] =
     Some (Some (ValidationError (apiErrorMessage ''scheduled message ID is required'') None), [])"
  "CancelScheduled w c [] =
     Some (Some (ValidationError (apiErrorMessage ''scheduled message ID is required'') None), [])"
  "SendBatch w c None =
     Some (Some (ValidationError (apiErrorMessage ''request is required'') None), [])"
  "Messages b = [] \<Longrightarrow>
     SendBatch w c (Some b) =
       Some (Some (ValidationError (apiErrorMessage ''messages are required'') None), [])"
  "GetBatch w c [] = Some (Some (ValidationError (apiErrorMessage ''batch ID is required'') None), [])"
  "Name k = [] \<Longrightarrow>
     CreateAPIKeyWithOptions w c k =
       Some (Some (ValidationError (apiErrorMessage ''API key name is required'') None), [])"
  "RevokeAPIKey w c [] =
     Some (Some (ValidationError (apiErrorMessage ''API key ID is required'') None), [])"
  by (simp_all add: Send_def Get_def Schedule_def GetScheduled_def CancelScheduled_def
      SendBatch_def GetBatch_def CreateAPIKeyWithOptions_def RevokeAPIKey_def validation_def)

text \<open>
  \<open>GetAPIKey\<close> makes no such check: it never returns with an empty history.
\<close>

lemma GetAPIKey_calls_executor: "GetAPIKey w c keyID \<noteq> Some (e, [])"
  using request_history_nonempty[of w c _ e "[]"] by (auto simp: GetAPIKey_def)

text \<open>
  C6. \<open>GetAPIKey\<close> with the empty identifier is not refused locally: the request is sent,
  to \<open>/keys/\<close>, and against a server that answers 200 the call returns no error at all,
  where \<open>RevokeAPIKey\<close> returns the \<open>ValidationError\<close> \<open>API key ID is required\<close> without a
  request.
\<close>

theorem GetAPIKey_empty_id_is_sent:
  "GetAPIKey (serverWorld (always 200 noHeader)) (NewClient ''key'' []) [] =
     Some (None, [AcquirePermit, Attempt 0 ''GET'' ''https://sendly.live/api/v1/keys/''])"
  by (simp add: GetAPIKey_def
      request_def request_loop.simps attempt_body_def doRequest_def
      serverWorld_def always_def NewClient_def DefaultBaseURL_def Let_def)

end
